theory Spec2Isabelle
  imports Complex_Main "HOL-Library.AList" "HOL-Library.Log_Nat"
begin

section \<open>The Qt values that Job.cpp handles\<close>

text \<open>
  Every location the controller handles is a file or a directory on the local disk, so a
  \<open>QUrl\<close> is modelled by the local path it stands for: \<open>toLocalFile\<close> reads the path
  and \<open>fromLocalFile\<close> builds the location of a path. The empty path is the empty
  (invalid) \<open>QUrl\<close>.
\<close>

datatype qurl = QUrl (toLocalFile: string)

definition fromLocalFile :: "string \<Rightarrow> qurl" where
  "fromLocalFile p = QUrl p"

definition isValid :: "qurl \<Rightarrow> bool" where
  "isValid u = (toLocalFile u \<noteq> [])"

text \<open>
  A \<open>QDateTime\<close> is observed through the two renderings the controller uses: the
  \<open>yyyyMMdd_HHmmss\<close> stamp and the text that \<open>QJsonValue::fromVariant\<close> writes.
\<close>

datatype qdatetime = QDateTime (stamp: string) (isoText: string)

text \<open>
  Floating-point values. A \<open>float\<close> or a \<open>double\<close> is a rational or an infinity
  (\<open>True\<close> for the negative one); the sign of zero and the values that are not numbers
  do not occur here. \<open>round_binary\<close> rounds a rational to the nearest value of a binary
  format with \<open>p\<close> significant bits and exponents from \<open>emin\<close> to \<open>emax\<close>, ties to
  the even significand, as the conversions of the C++ do: \<open>toFloat\<close> narrows a
  \<open>double\<close> to a \<open>float\<close>, and \<open>nearestDouble\<close> is the \<open>double\<close> that a decimal
  numeral is read as.
\<close>

datatype ieee = Finite rat | Infinity bool

definition pow2 :: "int \<Rightarrow> rat" where
  "pow2 k = (if 0 \<le> k then 2 ^ nat k else 1 / 2 ^ nat (- k))"

text \<open>The binary exponent of a rational that is not zero: \<open>2 ^ e \<le> |q| < 2 ^ (e + 1)\<close>.\<close>

definition exponent :: "rat \<Rightarrow> int" where
  "exponent q =
     (let k = bitlen (fst (quotient_of \<bar>q\<bar>)) - bitlen (snd (quotient_of \<bar>q\<bar>))
      in if pow2 k \<le> \<bar>q\<bar> then k else k - 1)"

definition round_even :: "rat \<Rightarrow> int" where
  "round_even x =
     (if x - of_int \<lfloor>x\<rfloor> < 1 / 2 then \<lfloor>x\<rfloor>
      else if 1 / 2 < x - of_int \<lfloor>x\<rfloor> then \<lfloor>x\<rfloor> + 1
      else if even \<lfloor>x\<rfloor> then \<lfloor>x\<rfloor> else \<lfloor>x\<rfloor> + 1)"

definition round_binary :: "int \<Rightarrow> int \<Rightarrow> int \<Rightarrow> rat \<Rightarrow> ieee" where
  "round_binary p emin emax q =
     (if q = 0 then Finite 0
      else
        (let ulp = pow2 (max (exponent q) emin - p + 1);
             r = of_int (round_even (\<bar>q\<bar> / ulp)) * ulp
         in if pow2 (emax + 1) \<le> r then Infinity (q < 0)
            else Finite (if q < 0 then - r else r)))"

definition toFloat :: "rat \<Rightarrow> ieee" where
  "toFloat d = round_binary 24 (- 126) 127 d"

definition nearestDouble :: "rat \<Rightarrow> ieee" where
  "nearestDouble q = round_binary 53 (- 1022) 1023 q"

text \<open>
  JSON values. A number is the value of a \<open>double\<close>, a rational. A \<open>QJsonObject\<close> is
  an association list with at most one entry per key; \<open>JUndefined\<close> is what reading a
  missing key gives.
\<close>

datatype qjson =
    JUndefined
  | JNull
  | JBool bool
  | JDouble rat
  | JString string
  | JArray "qjson list"
  | JObject "(string \<times> qjson) list"

type_synonym qjsonobject = "(string \<times> qjson) list"

definition contains :: "qjsonobject \<Rightarrow> string \<Rightarrow> bool" where
  "contains obj k = (map_of obj k \<noteq> None)"

definition at_key :: "qjsonobject \<Rightarrow> string \<Rightarrow> qjson" where
  "at_key obj k = (case map_of obj k of None \<Rightarrow> JUndefined | Some v \<Rightarrow> v)"

definition insert_key :: "string \<Rightarrow> qjson \<Rightarrow> qjsonobject \<Rightarrow> qjsonobject" where
  "insert_key k v obj = AList.update k v obj"

fun toString :: "qjson \<Rightarrow> string" where
  "toString (JString s) = s"
| "toString _ = []"

fun toArray :: "qjson \<Rightarrow> qjson list" where
  "toArray (JArray vs) = vs"
| "toArray _ = []"

fun toObject :: "qjson \<Rightarrow> qjsonobject" where
  "toObject (JObject kvs) = kvs"
| "toObject _ = []"

fun toDouble :: "qjson \<Rightarrow> rat" where
  "toDouble (JDouble d) = d"
| "toDouble _ = 0"

text \<open>
  \<open>QJsonValue::toInt\<close> gives the number when it is a whole number that fits an
  \<open>int\<close> (32 bits), and the default 0 otherwise.
\<close>

fun toInt :: "qjson \<Rightarrow> int" where
  "toInt (JDouble d) =
     (if of_int \<lfloor>d\<rfloor> = d \<and> - (2 ^ 31) \<le> \<lfloor>d\<rfloor> \<and> \<lfloor>d\<rfloor> < 2 ^ 31 then \<lfloor>d\<rfloor> else 0)"
| "toInt _ = 0"

text \<open>
  A document is an object or an array. The bytes of a file or of a process's output
  either are the text of a document (\<open>QJsonDocument::toJson\<close> writes it and
  \<open>QJsonDocument::fromJson\<close> reads it back) or are bytes that \<open>fromJson\<close> rejects
  with a parse error.
\<close>

datatype qjsondocument = DocObject qjsonobject | DocArray "qjson list"

datatype qbytearray = JsonText qjsondocument | Malformed string

definition toJson :: "qjsondocument \<Rightarrow> qbytearray" where
  "toJson doc = JsonText doc"

fun fromJson :: "qbytearray \<Rightarrow> qjsondocument option" where
  "fromJson (JsonText doc) = Some doc"
| "fromJson (Malformed _) = None"

fun object :: "qjsondocument \<Rightarrow> qjsonobject" where
  "object (DocObject obj) = obj"
| "object (DocArray _) = []"

text \<open>
  Variants. The numeric kinds are one kind, and a \<open>QStringList\<close> is the list of its
  strings, as \<open>QVariant\<close>'s own conversions identify them.
\<close>

datatype qvariant =
    VInvalid
  | VBool bool
  | VNumber rat
  | VString string
  | VList "qvariant list"
  | VMap "(string \<times> qvariant) list"

primrec fromVariant :: "qvariant \<Rightarrow> qjson" where
  "fromVariant VInvalid = JNull"
| "fromVariant (VBool b) = JBool b"
| "fromVariant (VNumber d) = JDouble d"
| "fromVariant (VString s) = JString s"
| "fromVariant (VList vs) = JArray (map fromVariant vs)"
| "fromVariant (VMap kvs) = JObject (map (map_prod id fromVariant) kvs)"

primrec toVariant :: "qjson \<Rightarrow> qvariant" where
  "toVariant JUndefined = VInvalid"
| "toVariant JNull = VInvalid"
| "toVariant (JBool b) = VBool b"
| "toVariant (JDouble d) = VNumber d"
| "toVariant (JString s) = VString s"
| "toVariant (JArray vs) = VList (map toVariant vs)"
| "toVariant (JObject kvs) = VMap (map (map_prod id toVariant) kvs)"

fun toList :: "qvariant \<Rightarrow> qvariant list" where
  "toList (VList vs) = vs"
| "toList _ = []"

text \<open>
  Comparing a variant with a string and printing a variant are Qt's: for a variant that
  holds a string they are the string's own; for the other kinds Qt converts first, and
  the conversion is a parameter here.
\<close>

record qconversions =
  convertedEquals :: "qvariant \<Rightarrow> string \<Rightarrow> bool"
  convertedString :: "qvariant \<Rightarrow> string"

definition variantEquals :: "qconversions \<Rightarrow> qvariant \<Rightarrow> string \<Rightarrow> bool" where
  "variantEquals qt v s = (case v of VString t \<Rightarrow> t = s | _ \<Rightarrow> convertedEquals qt v s)"

definition variantString :: "qconversions \<Rightarrow> qvariant \<Rightarrow> string" where
  "variantString qt v = (case v of VString t \<Rightarrow> t | _ \<Rightarrow> convertedString qt v)"

text \<open>
  The faults of the C++: calling through the null pointer that \<open>model()\<close> returns for
  a job that is in no collection, and indexing a list out of its range.
\<close>

datatype error = NullPointer | IndexOutOfRange

definition at_index :: "'a list \<Rightarrow> nat \<Rightarrow> error + 'a" where
  "at_index xs i = (if i < length xs then Inr (xs ! i) else Inl IndexOutOfRange)"

section \<open>The disk and the worker programs\<close>

text \<open>
  The disk: the directories that exist, the files that exist with their bytes, and the
  paths on which creating or opening fails (\<open>denied\<close>). Paths are compared as the
  strings the controller builds; \<open>QDir::filePath\<close> and the controller's own
  concatenation both put one \<open>/\<close> between a directory and a name.
\<close>

record filesystem =
  dirs :: "string set"
  files :: "string \<rightharpoonup> qbytearray"
  denied :: "string set"

definition filePath :: "string \<Rightarrow> string \<Rightarrow> string" where
  "filePath dir fileName = dir @ ''/'' @ fileName"

definition dir_exists :: "filesystem \<Rightarrow> string \<Rightarrow> bool" where
  "dir_exists f p = (p \<in> dirs f)"

definition file_exists :: "filesystem \<Rightarrow> string \<Rightarrow> bool" where
  "file_exists f p = (files f p \<noteq> None)"

text \<open>\<open>QDir::mkpath\<close>: true when the directory is there afterwards.\<close>

definition mkpath :: "filesystem \<Rightarrow> string \<Rightarrow> filesystem option" where
  "mkpath f p =
     (if p \<in> dirs f then Some f
      else if p \<in> denied f \<or> files f p \<noteq> None then None
      else Some (f\<lparr>dirs := insert p (dirs f)\<rparr>))"

text \<open>\<open>QFile::open(ReadOnly)\<close> followed by \<open>readAll\<close>.\<close>

definition open_read :: "filesystem \<Rightarrow> string \<Rightarrow> qbytearray option" where
  "open_read f p = (if p \<in> denied f then None else files f p)"

text \<open>\<open>QFile::open(WriteOnly | Text)\<close> creates the file or empties it.\<close>

definition open_write :: "filesystem \<Rightarrow> string \<Rightarrow> filesystem option" where
  "open_write f p =
     (if p \<in> denied f \<or> p \<in> dirs f then None
      else Some (f\<lparr>files := (files f)(p \<mapsto> Malformed [])\<rparr>))"

definition write_file :: "filesystem \<Rightarrow> string \<Rightarrow> qbytearray \<Rightarrow> filesystem" where
  "write_file f p bytes = f\<lparr>files := (files f)(p \<mapsto> bytes)\<rparr>"

definition below :: "string \<Rightarrow> string \<Rightarrow> bool" where
  "below p q = (q = p \<or> take (length p + 1) q = p @ ''/'')"

definition removeRecursively :: "filesystem \<Rightarrow> string \<Rightarrow> filesystem" where
  "removeRecursively f p =
     f\<lparr>dirs := {d \<in> dirs f. \<not> below p d},
       files := (\<lambda>q. if below p q then None else files f q)\<rparr>"

text \<open>\<open>QDir::cd\<close> moves only into a directory that exists.\<close>

definition cd :: "filesystem \<Rightarrow> string \<Rightarrow> string \<Rightarrow> string" where
  "cd f dir sub = (if dir_exists f (filePath dir sub) then filePath dir sub else dir)"

text \<open>
  What comes from outside the controller: the two environment overrides (empty when
  unset), the application directory, the working directory, and the two worker
  programs. Running the start program gives whether \<open>waitForFinished\<close> returned true
  and the disk the worker leaves; running the status program gives, when it finished,
  the exit status and the output the \<open>finished\<close> signal delivers.
\<close>

datatype exitStatus = NormalExit | CrashExit

record qprocess =
  exitCode :: int
  exitStat :: exitStatus
  standardOutput :: qbytearray
  standardError :: string

record environment =
  MESHROOM_START_COMMAND :: string
  MESHROOM_STATUS_COMMAND :: string
  applicationDirPath :: string
  currentPath :: string
  runStart :: "string \<Rightarrow> string list \<Rightarrow> filesystem \<Rightarrow> bool \<times> filesystem"
  runStatus :: "string \<Rightarrow> string list \<Rightarrow> filesystem \<Rightarrow> qprocess option \<times> filesystem"

definition absoluteFilePath :: "environment \<Rightarrow> string \<Rightarrow> string" where
  "absoluteFilePath env p =
     (if take 1 p = ''/'' then p else currentPath env @ ''/'' @ p)"

section \<open>The data model\<close>

text \<open>
  Modelled from the spec: the classes \<open>Attribute\<close>, \<open>Step\<close> and \<open>Resource\<close> and
  the list models \<open>StepModel\<close>, \<open>AttributeModel\<close> and \<open>ResourceModel\<close>, which
  are declared outside \<open>Job.cpp\<close>. An attribute is a key, a display name, a kind, a
  value, options and a minimum, maximum and step; the fields are named after the
  setters that \<open>createDefaultGraph\<close> calls (\<open>atype\<close>, \<open>key\<close>, \<open>aname\<close>,
  \<open>avalue\<close>, \<open>options\<close>, \<open>amin\<close>, \<open>amax\<close>, \<open>astep\<close>). A step is a name
  (\<open>sname\<close>) and an ordered sequence of attributes; a resource is a location. A list
  model is the list of its rows, in row order, and every row holds an object.
\<close>

record Attribute =
  atype :: int
  key :: string
  aname :: string
  avalue :: qvariant
  options :: "string list"
  amin :: rat
  amax :: rat
  astep :: rat

record Step =
  sname :: string
  attributes :: "Attribute list"

datatype Resource = Resource (location: qurl)

text \<open>
  The members of a \<open>Job\<close>, as the constructor and the setters name them.
  \<open>modelIndex\<close> is the job's row in the \<open>JobModel\<close> that holds it, and \<open>None\<close>
  while the job is in no collection: then \<open>model()\<close> is null, as the test in
  \<open>selectThumbnail\<close> expects it can be. \<open>autoSave\<close> says whether the connections
  of \<open>autoSaveOn\<close> are in place. The completion is a \<open>float\<close>.
\<close>

record Job =
  url :: qurl
  date :: qdatetime
  name :: string
  user :: string
  steps :: "Step list"
  images :: "Resource list"
  completion :: ieee
  status :: int
  thumbnail :: qurl
  modelIndex :: "nat option"
  autoSave :: bool

text \<open>
  The controller runs in a world: the job, the disk, and the worker programs launched
  so far, each with its arguments.
\<close>

record world =
  job :: Job
  fs :: filesystem
  launched :: "(string \<times> string list) list"

section \<open>The collaborators of \<open>Job.cpp\<close>\<close>

text \<open>
  Modelled from the spec: \<open>Resource::serializeToJSON\<close>, which is defined outside
  \<open>Job.cpp\<close>. The \<open>resources\<close> array holds the resource locations, written in
  collection order: a resource appends its location to the array.
\<close>

definition Resource_serializeToJSON :: "Resource \<Rightarrow> qjson list \<Rightarrow> qjson list" where
  "Resource_serializeToJSON r array = array @ [JString (toLocalFile (location r))]"

text \<open>
  Modelled from the spec: \<open>Step::serializeToJSON\<close> and \<open>Step::deserializeFromJSON\<close>
  with the attribute's part of each, which are defined outside \<open>Job.cpp\<close>. The
  \<open>steps\<close> object is keyed by step name, each value holding that step's attribute
  key to value map. Reading looks the step's name up in the \<open>steps\<close> object and
  applies the attribute values found there; steps and attributes that the descriptor
  does not have keep their values.
\<close>

definition Attribute_serializeToJSON :: "Attribute \<Rightarrow> qjsonobject \<Rightarrow> qjsonobject" where
  "Attribute_serializeToJSON att stepObject =
     insert_key (key att) (fromVariant (avalue att)) stepObject"

definition Step_serializeToJSON :: "Step \<Rightarrow> qjsonobject \<Rightarrow> qjsonobject" where
  "Step_serializeToJSON step stepsObject =
     insert_key (sname step)
       (JObject (foldl (\<lambda>obj att. Attribute_serializeToJSON att obj) [] (attributes step)))
       stepsObject"

definition Attribute_deserializeFromJSON :: "qjsonobject \<Rightarrow> Attribute \<Rightarrow> Attribute" where
  "Attribute_deserializeFromJSON stepObject att =
     (if \<not> contains stepObject (key att) then att
      else att\<lparr>avalue := toVariant (at_key stepObject (key att))\<rparr>)"

definition Step_deserializeFromJSON :: "qjsonobject \<Rightarrow> Step \<Rightarrow> Step" where
  "Step_deserializeFromJSON stepsObject step =
     (if \<not> contains stepsObject (sname step) then step
      else step\<lparr>attributes :=
        map (Attribute_deserializeFromJSON (toObject (at_key stepsObject (sname step))))
          (attributes step)\<rparr>)"

text \<open>
  The setters of \<open>Job.cpp\<close> that the collection calls. \<open>setCompletion\<close> takes a
  \<open>float\<close>.
\<close>

definition setCompletion :: "ieee \<Rightarrow> Job \<Rightarrow> Job" where
  "setCompletion c j = j\<lparr>completion := c\<rparr>"

definition setStatus :: "int \<Rightarrow> Job \<Rightarrow> Job" where
  "setStatus s j = j\<lparr>status := s\<rparr>"

definition setThumbnail :: "qurl \<Rightarrow> Job \<Rightarrow> Job" where
  "setThumbnail t j = j\<lparr>thumbnail := t\<rparr>"

text \<open>
  Modelled from the spec: \<open>JobModel::setData\<close>, which is defined outside \<open>Job.cpp\<close>.
  The collection pushes a completion, a status or a thumbnail to the job at the given
  row through the job's setter. Each role takes the value that \<open>Job.cpp\<close> passes for
  it: a \<open>double\<close> for the completion, which is narrowed to the \<open>float\<close> that
  \<open>setCompletion\<close> takes, an \<open>int\<close> for the status and a location for the
  thumbnail.
\<close>

datatype roleValue = CompletionRole rat | StatusRole int | ThumbnailRole qurl

fun setData :: "roleValue \<Rightarrow> Job \<Rightarrow> Job" where
  "setData (CompletionRole d) j = setCompletion (toFloat d) j"
| "setData (StatusRole s) j = setStatus s j"
| "setData (ThumbnailRole t) j = setThumbnail t j"

text \<open>
  The call \<open>model()->setData(_modelIndex, value, role)\<close>: it faults when \<open>model()\<close>
  is null.
\<close>

definition model_setData :: "roleValue \<Rightarrow> Job \<Rightarrow> error + Job" where
  "model_setData rv j = (if modelIndex j = None then Inl NullPointer else Inr (setData rv j))"

text \<open>
  Modelled from the spec: \<open>ResourceModel::data\<close> for the location role. The location
  of the resource at a row, and the empty location for a row the collection does not
  have.
\<close>

definition data_UrlRole :: "Resource list \<Rightarrow> nat \<Rightarrow> qurl" where
  "data_UrlRole rs row = (if row < length rs then location (rs ! row) else QUrl [])"

section \<open>\<open>Job.cpp\<close>\<close>

subsection \<open>Attribute lookup\<close>

text \<open>
  \<open>getAttribute\<close>: the outer loop skips the steps of another name, the inner loop
  skips the attributes of another key and returns the first one left, with its row and
  its step. A step of the right name without the attribute does not end the search.
\<close>

fun getAttribute_rows :: "string \<Rightarrow> Attribute list \<Rightarrow> nat \<Rightarrow> (nat \<times> Attribute) option" where
  "getAttribute_rows attrKey [] i = None"
| "getAttribute_rows attrKey (att # atts) i =
     (if key att \<noteq> attrKey then getAttribute_rows attrKey atts (Suc i)
      else Some (i, att))"

fun getAttribute_steps ::
  "string \<Rightarrow> string \<Rightarrow> Step list \<Rightarrow> (nat \<times> Step \<times> Attribute) option" where
  "getAttribute_steps stepName attrKey [] = None"
| "getAttribute_steps stepName attrKey (step # rest) =
     (if sname step \<noteq> stepName then getAttribute_steps stepName attrKey rest
      else (case getAttribute_rows attrKey (attributes step) 0 of
              None \<Rightarrow> getAttribute_steps stepName attrKey rest
            | Some (i, att) \<Rightarrow> Some (i, step, att)))"

definition getAttribute :: "Job \<Rightarrow> string \<Rightarrow> string \<Rightarrow> (nat \<times> Step \<times> Attribute) option" where
  "getAttribute j stepName attrKey = getAttribute_steps stepName attrKey (steps j)"

text \<open>
  The three pair queries. \<open>&&\<close> evaluates its right operand only when the left one
  holds, so \<open>pair[0]\<close> and \<open>pair[1]\<close> are read only behind the test on
  \<open>pair.count()\<close>.
\<close>

definition isPairA :: "qconversions \<Rightarrow> Job \<Rightarrow> qurl \<Rightarrow> error + bool" where
  "isPairA qt j u =
     (case getAttribute j ''sfm'' ''initial_pair'' of
        None \<Rightarrow> Inr False
      | Some (i, step, initialPairAttribute) \<Rightarrow>
          (let pair = toList (avalue initialPairAttribute) in
           if length pair > 0 then
             (case at_index pair 0 of
                Inl e \<Rightarrow> Inl e
              | Inr p0 \<Rightarrow> Inr (variantEquals qt p0 (toLocalFile u)))
           else Inr False))"

definition isPairB :: "qconversions \<Rightarrow> Job \<Rightarrow> qurl \<Rightarrow> error + bool" where
  "isPairB qt j u =
     (case getAttribute j ''sfm'' ''initial_pair'' of
        None \<Rightarrow> Inr False
      | Some (i, step, initialPairAttribute) \<Rightarrow>
          (let pair = toList (avalue initialPairAttribute) in
           if length pair > 1 then
             (case at_index pair 1 of
                Inl e \<Rightarrow> Inl e
              | Inr p1 \<Rightarrow> Inr (variantEquals qt p1 (toLocalFile u)))
           else Inr False))"

definition isPairValid :: "qconversions \<Rightarrow> Job \<Rightarrow> error + bool" where
  "isPairValid qt j =
     (case getAttribute j ''sfm'' ''initial_pair'' of
        None \<Rightarrow> Inr False
      | Some (i, step, initialPairAttribute) \<Rightarrow>
          (let pair = toList (avalue initialPairAttribute) in
           if length pair > 1 then
             (case at_index pair 0 of
                Inl e \<Rightarrow> Inl e
              | Inr p0 \<Rightarrow>
                  if isValid (fromLocalFile (variantString qt p0)) then
                    (case at_index pair 1 of
                       Inl e \<Rightarrow> Inl e
                     | Inr p1 \<Rightarrow> Inr (isValid (fromLocalFile (variantString qt p1))))
                  else Inr False)
           else Inr False))"

subsection \<open>The pipeline template and the constructor\<close>

text \<open>
  What the headers declare and \<open>Job.cpp\<close> only uses: the state of a newly constructed
  \<open>Attribute\<close>, and the first values of the two members that the constructor of
  \<open>Job\<close> does not set.
\<close>

record declared =
  newAttribute :: Attribute
  firstCompletion :: ieee
  firstStatus :: int

definition createDefaultGraph :: "declared \<Rightarrow> Job \<Rightarrow> Job" where
  "createDefaultGraph h j =
     (let att1 = (newAttribute h)\<lparr>atype := 2, key := ''describerPreset'', aname := ''quality'',
                   avalue := VString ''Normal'', options := [''Normal'', ''High'', ''Ultra'']\<rparr>;
          step1 = \<lparr>sname = ''feature_detection'', attributes = [att1]\<rparr>;
          att2 = (newAttribute h)\<lparr>atype := 1, key := ''scale'', aname := ''meshing scale'',
                   avalue := VNumber 2, amin := 1, amax := 10, astep := 1\<rparr>;
          step2 = \<lparr>sname = ''meshing'', attributes = [att2]\<rparr>;
          att3 = (newAttribute h)\<lparr>atype := 3, key := ''initial_pair'', aname := ''initial pair'',
                   avalue := VList [VString [], VString []]\<rparr>;
          step3 = \<lparr>sname = ''sfm'', attributes = [att3]\<rparr>
      in j\<lparr>steps := steps j @ [step1, step2, step3]\<rparr>)"

text \<open>
  \<open>Job::Job\<close>, from the project's location, the \<open>USER\<close> variable and the current
  time. The job starts outside every collection, with auto-save on.
\<close>

definition Job_new :: "declared \<Rightarrow> qurl \<Rightarrow> string \<Rightarrow> qdatetime \<Rightarrow> Job" where
  "Job_new h projectUrl USER now =
     createDefaultGraph h
       \<lparr>url = fromLocalFile (toLocalFile projectUrl @ ''/reconstructions/'' @ stamp now),
        date = now, name = stamp now, user = USER, steps = [], images = [],
        completion = firstCompletion h, status = firstStatus h, thumbnail = QUrl [],
        modelIndex = None, autoSave = True\<rparr>"

definition setModelIndex :: "nat option \<Rightarrow> Job \<Rightarrow> Job" where
  "setModelIndex i j = j\<lparr>modelIndex := i\<rparr>"

definition autoSaveOn :: "Job \<Rightarrow> Job" where
  "autoSaveOn j = j\<lparr>autoSave := True\<rparr>"

definition autoSaveOff :: "Job \<Rightarrow> Job" where
  "autoSaveOff j = j\<lparr>autoSave := False\<rparr>"

subsection \<open>The descriptor\<close>

definition serializeToJSON :: "Job \<Rightarrow> qjsonobject \<Rightarrow> qjsonobject" where
  "serializeToJSON j obj =
     (let pathsObject =
            insert_key ''match'' (JString (toLocalFile (url j) @ ''/build/matches''))
              (insert_key ''build'' (JString (toLocalFile (url j) @ ''/build'')) []);
          resourceArray = foldl (\<lambda>array r. Resource_serializeToJSON r array) [] (images j);
          stepsObject = foldl (\<lambda>so step. Step_serializeToJSON step so) [] (steps j)
      in insert_key ''steps'' (JObject stepsObject)
           (insert_key ''resources'' (JArray resourceArray)
             (insert_key ''paths'' (JObject pathsObject)
               (insert_key ''name'' (JString (name j))
                 (insert_key ''user'' (JString (user j))
                   (insert_key ''date'' (JString (isoText (date j))) obj))))))"

definition isStoredOnDisk :: "Job \<Rightarrow> filesystem \<Rightarrow> bool" where
  "isStoredOnDisk j f = file_exists f (filePath (toLocalFile (url j)) ''job.json'')"

definition isStartable :: "Job \<Rightarrow> bool" where
  "isStartable j = (if length (images j) < 2 then False else True)"

definition isStarted :: "Job \<Rightarrow> filesystem \<Rightarrow> bool" where
  "isStarted j f = (dir_exists f (toLocalFile (url j) @ ''/build'') \<and> isStoredOnDisk j f)"

definition save :: "world \<Rightarrow> bool \<times> world" where
  "save w =
     (if isStarted (job w) (fs w) then (False, w)
      else
        (let json = serializeToJSON (job w) [] in
         case mkpath (fs w) (toLocalFile (url (job w))) of
           None \<Rightarrow> (False, w)
         | Some f1 \<Rightarrow>
             (let jobFile = filePath (toLocalFile (url (job w))) ''job.json'' in
              case open_write f1 jobFile of
                None \<Rightarrow> (False, w\<lparr>fs := f1\<rparr>)
              | Some f2 \<Rightarrow> (True, w\<lparr>fs := write_file f2 jobFile (toJson (DocObject json))\<rparr>))))"

subsection \<open>The thumbnail and the resource collection\<close>

definition selectThumbnail :: "Job \<Rightarrow> Job" where
  "selectThumbnail j =
     (if modelIndex j = None then j
      else setData (ThumbnailRole (data_UrlRole (images j) 0)) j)"

text \<open>
  The slots that the controller connects to the collection's \<open>countChanged\<close> signal:
  \<open>save\<close> while auto-save is on, whose result nobody reads, and \<open>selectThumbnail\<close>
  (connected by the constructor). The two do not read what the other writes.
\<close>

definition countChanged :: "world \<Rightarrow> world" where
  "countChanged w =
     (let w1 = (if autoSave (job w) then snd (save w) else w)
      in w1\<lparr>job := selectThumbnail (job w1)\<rparr>)"

text \<open>
  Modelled from the spec: \<open>ResourceModel::addResource\<close>, which is defined outside
  \<open>Job.cpp\<close>. The collection keeps insertion order and permits duplicates: the
  resource becomes the last row, and the collection signals that its size changed.
\<close>

definition addResource :: "Resource \<Rightarrow> world \<Rightarrow> world" where
  "addResource r w = countChanged (w\<lparr>job := (job w)\<lparr>images := images (job w) @ [r]\<rparr>\<rparr>)"

definition deserializeFromJSON :: "qjsonobject \<Rightarrow> world \<Rightarrow> world" where
  "deserializeFromJSON obj w =
     (let w1 = w\<lparr>job := autoSaveOff (job w)\<rparr>;
          w2 = (if contains obj ''user''
                then w1\<lparr>job := (job w1)\<lparr>user := toString (at_key obj ''user'')\<rparr>\<rparr> else w1);
          w3 = (if contains obj ''name''
                then w2\<lparr>job := (job w2)\<lparr>name := toString (at_key obj ''name'')\<rparr>\<rparr> else w2);
          resourceArray = toArray (at_key obj ''resources'');
          w4 = foldl (\<lambda>v e. addResource (Resource (fromLocalFile (toString e))) v) w3 resourceArray;
          stepsObject = toObject (at_key obj ''steps'');
          w5 = w4\<lparr>job := (job w4)\<lparr>steps :=
                 map (Step_deserializeFromJSON stepsObject) (steps (job w4))\<rparr>\<rparr>
      in w5\<lparr>job := autoSaveOn (job w5)\<rparr>)"

definition load :: "qurl \<Rightarrow> world \<Rightarrow> bool \<times> world" where
  "load u w =
     (let dir = toLocalFile u in
      if \<not> dir_exists (fs w) dir then (False, w)
      else
        (let w1 = w\<lparr>job := (job w)\<lparr>url := u\<rparr>\<rparr> in
         case open_read (fs w1) (filePath dir ''job.json'') of
           None \<Rightarrow> (False, w1)
         | Some bytes \<Rightarrow>
             (case fromJson bytes of
                None \<Rightarrow> (False, w1)
              | Some jsonDocument \<Rightarrow> (True, deserializeFromJSON (object jsonDocument) w1))))"

subsection \<open>The workers\<close>

definition readProcessOutput :: "int \<Rightarrow> exitStatus \<Rightarrow> qprocess \<Rightarrow> Job \<Rightarrow> error + Job" where
  "readProcessOutput code exitSt process j =
     (if exitSt \<noteq> NormalExit then model_setData (StatusRole 4) j
      else
        (case fromJson (standardOutput process) of
           None \<Rightarrow> model_setData (StatusRole 4) j
         | Some jsondoc \<Rightarrow>
             (let json = object jsondoc in
              if \<not> contains json ''completion'' \<or> \<not> contains json ''status'' then Inr j
              else
                (case model_setData (CompletionRole (toDouble (at_key json ''completion''))) j of
                   Inl e \<Rightarrow> Inl e
                 | Inr j1 \<Rightarrow> model_setData (StatusRole (toInt (at_key json ''status''))) j1))))"

definition refresh :: "environment \<Rightarrow> world \<Rightarrow> error + world" where
  "refresh env w =
     (if \<not> isStarted (job w) (fs w) then
        (case model_setData (StatusRole (- 1)) (job w) of
           Inl e \<Rightarrow> Inl e
         | Inr j \<Rightarrow> Inr (w\<lparr>job := j\<rparr>))
      else
        (let statusCommand =
               (if MESHROOM_STATUS_COMMAND env = []
                then applicationDirPath env @ ''/scripts/job_status.py''
                else MESHROOM_STATUS_COMMAND env);
             arguments = [absoluteFilePath env (toLocalFile (url (job w)) @ ''/job.json'')];
             ran = runStatus env statusCommand arguments (fs w);
             w1 = w\<lparr>fs := snd ran, launched := launched w @ [(statusCommand, arguments)]\<rparr>
         in case fst ran of
              None \<Rightarrow> Inr w1
            | Some process \<Rightarrow>
                (case readProcessOutput (exitCode process) (exitStat process) process (job w1) of
                   Inl e \<Rightarrow> Inl e
                 | Inr j \<Rightarrow> Inr (w1\<lparr>job := j\<rparr>))))"

definition start :: "environment \<Rightarrow> world \<Rightarrow> error + bool \<times> world" where
  "start env w =
     (case save w of
        (False, w1) \<Rightarrow> Inr (False, w1)
      | (True, w1) \<Rightarrow>
          if \<not> isStartable (job w1) then Inr (False, w1)
          else
            (let dir = toLocalFile (url (job w1)) in
             case mkpath (fs w1) (filePath dir ''build'') of
               None \<Rightarrow> Inr (False, w1)
             | Some f2 \<Rightarrow>
                 (let startCommand =
                        (if MESHROOM_START_COMMAND env = []
                         then applicationDirPath env @ ''/scripts/job_start.py''
                         else MESHROOM_START_COMMAND env);
                      arguments = [dir @ ''/job.json''];
                      ran = runStart env startCommand arguments f2;
                      w3 = w1\<lparr>fs := snd ran,
                             launched := launched w1 @ [(startCommand, arguments)]\<rparr>
                  in if \<not> fst ran
                     then Inr (False, w3\<lparr>fs := removeRecursively (fs w3) (cd (fs w3) dir ''build'')\<rparr>)
                     else (case refresh env w3 of
                             Inl e \<Rightarrow> Inl e
                           | Inr w4 \<Rightarrow> Inr (True, w4)))))"

definition erase :: "world \<Rightarrow> world" where
  "erase w =
     (let dir = toLocalFile (url (job w)) in
      if dir_exists (fs w) dir then w\<lparr>fs := removeRecursively (fs w) dir\<rparr> else w)"

section \<open>What is said of a job's steps\<close>

text \<open>
  The data model makes a step's name unique within a job and an attribute's key unique
  within its step (\<open>unique_keys\<close>). \<open>shape\<close> is what the pipeline template fixes, the
  step names with their attribute keys; \<open>settings\<close> is what varies, the value under
  each key. \<open>holds_initial_pair\<close> says that an attribute is the \<open>initial_pair\<close>
  attribute of the job's \<open>sfm\<close> step.
\<close>

definition unique_keys :: "Step list \<Rightarrow> bool" where
  "unique_keys ss =
     (distinct (map sname ss) \<and> list_all (\<lambda>s. distinct (map key (attributes s))) ss)"

definition shape :: "Step list \<Rightarrow> (string \<times> string list) list" where
  "shape ss = map (\<lambda>s. (sname s, map key (attributes s))) ss"

definition settings :: "Step list \<Rightarrow> (string \<times> (string \<times> qvariant) list) list" where
  "settings ss = map (\<lambda>s. (sname s, map (\<lambda>a. (key a, avalue a)) (attributes s))) ss"

definition holds_initial_pair :: "Job \<Rightarrow> Attribute \<Rightarrow> bool" where
  "holds_initial_pair j att =
     (distinct (map sname (steps j)) \<and>
      (\<exists>s \<in> set (steps j). sname s = ''sfm'' \<and> distinct (map key (attributes s)) \<and>
         att \<in> set (attributes s) \<and> key att = ''initial_pair''))"

section \<open>Concrete jobs, disks and workers\<close>

text \<open>
  A job as the constructor leaves it, for a project at \<open>/p\<close>, and the same job once a
  collection holds it at row 0.
\<close>

definition declared0 :: declared where
  "declared0 =
     \<lparr>newAttribute = \<lparr>atype = 0, key = [], aname = [], avalue = VInvalid, options = [],
                       amin = 0, amax = 0, astep = 0\<rparr>,
      firstCompletion = Finite 0, firstStatus = - 1\<rparr>"

definition job0 :: Job where
  "job0 = Job_new declared0 (QUrl ''/p'') ''ada'' (QDateTime ''t0'' ''2016-01-01T00:00:00'')"

definition jobHeld :: Job where
  "jobHeld = setModelIndex (Some 0) job0"

text \<open>An empty disk, and a disk on which the job of \<open>job0\<close> is started.\<close>

definition disk0 :: filesystem where
  "disk0 = \<lparr>dirs = {}, files = Map.empty, denied = {}\<rparr>"

definition diskStarted :: filesystem where
  "diskStarted =
     \<lparr>dirs = {''/p/reconstructions/t0'', ''/p/reconstructions/t0/build''},
      files = [''/p/reconstructions/t0/job.json'' \<mapsto> JsonText (DocObject [])],
      denied = {}\<rparr>"

definition world0 :: world where
  "world0 = \<lparr>job = job0, fs = disk0, launched = []\<rparr>"

definition worldStarted :: world where
  "worldStarted = \<lparr>job = job0, fs = diskStarted, launched = []\<rparr>"

definition worldHeld :: world where
  "worldHeld = \<lparr>job = jobHeld\<lparr>status := 7\<rparr>, fs = disk0, launched = []\<rparr>"

definition env0 :: environment where
  "env0 =
     \<lparr>MESHROOM_START_COMMAND = [], MESHROOM_STATUS_COMMAND = [],
      applicationDirPath = ''/app'', currentPath = ''/'',
      runStart = (\<lambda>program arguments f. (True, f)),
      runStatus = (\<lambda>program arguments f. (None, f))\<rparr>"

text \<open>
  Status workers: one that is killed, one that prints no JSON, one that prints
  \<open>{"completion":0.42,"status":2}\<close>, and one that prints a completion only. The
  numeral \<open>0.42\<close> is read as the nearest \<open>double\<close>, \<open>double042\<close>.
\<close>

definition double042 :: rat where
  "double042 = 7566047373982433 / 18014398509481984"

definition crashed :: qprocess where
  "crashed = \<lparr>exitCode = 1, exitStat = CrashExit, standardOutput = Malformed [],
               standardError = ''killed''\<rparr>"

definition garbled :: qprocess where
  "garbled = \<lparr>exitCode = 0, exitStat = NormalExit, standardOutput = Malformed ''not json'',
               standardError = []\<rparr>"

definition reported :: qprocess where
  "reported =
     \<lparr>exitCode = 0, exitStat = NormalExit,
      standardOutput =
        JsonText (DocObject [(''completion'', JDouble double042), (''status'', JDouble 2)]),
      standardError = []\<rparr>"

definition warmingUp :: qprocess where
  "warmingUp =
     \<lparr>exitCode = 0, exitStat = NormalExit,
      standardOutput = JsonText (DocObject [(''completion'', JDouble double042)]),
      standardError = []\<rparr>"

text \<open>
  A directory without a descriptor, and one whose descriptor is not JSON.
\<close>

definition diskNoDescriptor :: filesystem where
  "diskNoDescriptor = \<lparr>dirs = {''/q''}, files = Map.empty, denied = {}\<rparr>"

definition diskBadDescriptor :: filesystem where
  "diskBadDescriptor =
     \<lparr>dirs = {''/q''}, files = [''/q/job.json'' \<mapsto> Malformed ''{''], denied = {}\<rparr>"

definition worldNoDescriptor :: world where
  "worldNoDescriptor = \<lparr>job = job0, fs = diskNoDescriptor, launched = []\<rparr>"

definition worldBadDescriptor :: world where
  "worldBadDescriptor = \<lparr>job = job0, fs = diskBadDescriptor, launched = []\<rparr>"

text \<open>
  Jobs with a chosen value under \<open>sfm.initial_pair\<close>, a job without the \<open>sfm\<close> step,
  and a job that a user has named and given two images and an initial pair.
\<close>

definition withPair :: "qvariant \<Rightarrow> Job \<Rightarrow> Job" where
  "withPair v j =
     j\<lparr>steps := map (\<lambda>s. if sname s = ''sfm''
                          then s\<lparr>attributes := map (\<lambda>a. a\<lparr>avalue := v\<rparr>) (attributes s)\<rparr>
                          else s) (steps j)\<rparr>"

definition pairAttribute :: "qvariant \<Rightarrow> Attribute" where
  "pairAttribute v =
     \<lparr>atype = 3, key = ''initial_pair'', aname = ''initial pair'', avalue = v, options = [],
      amin = 0, amax = 0, astep = 0\<rparr>"

definition jobPair :: Job where
  "jobPair = withPair (VList [VString ''/img/1.jpg'', VString ''/img/2.jpg'']) job0"

definition jobNoSfm :: Job where
  "jobNoSfm = job0\<lparr>steps := take 2 (steps job0)\<rparr>"

definition jobEdited :: Job where
  "jobEdited =
     jobPair\<lparr>name := ''vase'', user := ''bob'',
             images := [Resource (QUrl ''/img/1.jpg''), Resource (QUrl ''/img/2.jpg'')]\<rparr>"

definition qt0 :: qconversions where
  "qt0 = \<lparr>convertedEquals = (\<lambda>v s. False), convertedString = (\<lambda>v. [])\<rparr>"

section \<open>Saving and starting\<close>

lemma save_job: "job (snd (save w)) = job w"
  by (simp add: save_def Let_def split: option.splits)

lemma save_launched: "launched (snd (save w)) = launched w"
  by (simp add: save_def Let_def split: option.splits)

lemma save_build:
  "dir_exists (fs (snd (save w))) (toLocalFile (url (job w)) @ ''/build'')
     = dir_exists (fs w) (toLocalFile (url (job w)) @ ''/build'')"
  by (simp add: save_def Let_def mkpath_def open_write_def write_file_def dir_exists_def
      split: option.splits if_splits)

lemma job0_url: "toLocalFile (url job0) = ''/p/reconstructions/t0''"
  by (simp add: job0_def Job_new_def createDefaultGraph_def declared0_def fromLocalFile_def)

lemma job0_images: "images job0 = []"
  by (simp add: job0_def Job_new_def createDefaultGraph_def)

lemma started0: "isStarted job0 diskStarted"
  by (simp add: isStarted_def isStoredOnDisk_def dir_exists_def file_exists_def filePath_def
      job0_url diskStarted_def)

lemma save_world0:
  "fs (snd (save world0)) =
     \<lparr>dirs = {''/p/reconstructions/t0''},
      files = [''/p/reconstructions/t0/job.json''
                 \<mapsto> toJson (DocObject (serializeToJSON job0 []))],
      denied = {}\<rparr>"
  by (simp add: save_def world0_def isStarted_def dir_exists_def disk0_def job0_url mkpath_def
      open_write_def filePath_def write_file_def)

text \<open>
  \<open>start\<close> saves before it validates: with fewer than two resources it returns false
  and leaves the world as \<open>save\<close> left it.
\<close>

lemma start_few_images:
  assumes "length (images (job w)) < 2"
  shows "start env w = Inr (False, snd (save w))"
proof (cases "save w")
  case (Pair ok w1)
  have "job w1 = job w"
    using save_job [of w] Pair by simp
  with assms have "\<not> isStartable (job w1)"
    by (simp add: isStartable_def)
  with Pair show ?thesis
    by (cases ok) (simp_all add: start_def)
qed

text \<open>
  C2. For every job that is started (the build directory and the descriptor both
  exist), \<open>save\<close> returns false and leaves the world as it was: nothing is written and
  the descriptor keeps its bytes, whatever the job holds in memory.
\<close>

theorem save_started_noop:
  "isStarted (job w) (fs w) \<Longrightarrow>
     fst (save w) = False \<and> snd (save w) = w \<and>
     files (fs (snd (save w))) (filePath (toLocalFile (url (job w))) ''job.json'')
       = files (fs w) (filePath (toLocalFile (url (job w))) ''job.json'')"
  by (simp add: save_def)

theorem save_started_noop_witness:
  "isStarted (job worldStarted) (fs worldStarted) \<and>
   fst (save worldStarted) = False \<and> snd (save worldStarted) = worldStarted"
  using save_started_noop [of worldStarted] started0
  by (simp add: worldStarted_def)

text \<open>
  C3, as the code has it. \<open>isStartable\<close> is false for 0 or 1 resources and true for 2 or
  more. With fewer than 2 resources \<open>start\<close> returns false, leaves the job as it was,
  launches no worker and creates no build directory; what it leaves on the disk is what
  \<open>save\<close>, which it calls first, leaves there.
\<close>

theorem start_needs_two:
  "isStartable j = (2 \<le> length (images j)) \<and>
   (length (images (job w)) < 2 \<longrightarrow>
      start env w = Inr (False, snd (save w)) \<and>
      job (snd (save w)) = job w \<and>
      launched (snd (save w)) = launched w \<and>
      dir_exists (fs (snd (save w))) (toLocalFile (url (job w)) @ ''/build'')
        = dir_exists (fs w) (toLocalFile (url (job w)) @ ''/build''))"
  by (simp add: isStartable_def start_few_images save_job save_launched save_build)

theorem start_needs_two_witness:
  "isStartable job0 = (2 \<le> length (images job0)) \<and>
   length (images (job world0)) < 2 \<and>
   start env0 world0 = Inr (False, snd (save world0)) \<and>
   dir_exists (fs (snd (save world0))) ''/p/reconstructions/t0/build'' = False"
proof -
  have n: "length (images (job world0)) < 2"
    by (simp add: world0_def job0_images)
  show ?thesis
    using start_needs_two [of job0 world0 env0] n
    by (simp add: save_world0 dir_exists_def)
qed

text \<open>
  The claim as the spec states it, that \<open>start\<close> fails without side effects, is false:
  on an empty disk, starting a job without resources returns false and leaves the
  descriptor \<open>job.json\<close> behind.
\<close>

theorem start_writes_descriptor:
  "length (images (job world0)) < 2 \<and>
   \<not> file_exists (fs world0) ''/p/reconstructions/t0/job.json'' \<and>
   fst (projr (start env0 world0)) = False \<and>
   file_exists (fs (snd (projr (start env0 world0)))) ''/p/reconstructions/t0/job.json''"
proof -
  have n: "length (images (job world0)) < 2"
    by (simp add: world0_def job0_images)
  have "start env0 world0 = Inr (False, snd (save world0))"
    using start_few_images [of world0 env0] n by simp
  then show ?thesis
    using n by (simp add: save_world0 file_exists_def) (simp add: world0_def disk0_def)
qed

section \<open>Polling the worker\<close>

text \<open>
  The status and the completion of a job are pushed through the collection that holds
  the job, by \<open>model()->setData\<close>. \<open>selectThumbnail\<close> tests \<open>model()\<close> first;
  \<open>refresh\<close> and \<open>readProcessOutput\<close> do not, and they fault on a job that no
  collection holds. On a job that a collection holds they do the following.
\<close>

lemma refresh_not_started_held:
  "modelIndex (job w) \<noteq> None \<Longrightarrow> \<not> isStarted (job w) (fs w) \<Longrightarrow>
     refresh env w = Inr (w\<lparr>job := (job w)\<lparr>status := - 1\<rparr>\<rparr>)"
  by (simp add: refresh_def model_setData_def setStatus_def)

lemma worker_failure_held:
  "modelIndex j \<noteq> None \<Longrightarrow>
   exitSt \<noteq> NormalExit \<or> fromJson (standardOutput process) = None \<Longrightarrow>
     readProcessOutput code exitSt process j = Inr (j\<lparr>status := 4\<rparr>)"
  by (auto simp add: readProcessOutput_def model_setData_def setStatus_def)

lemma nearestDouble_042: "nearestDouble (42 / 100) = Finite double042"
  by code_simp

lemma toFloat_double042: "toFloat double042 = Finite (14092861 / 33554432)"
  by code_simp

lemma reported_held:
  "modelIndex j \<noteq> None \<Longrightarrow>
     readProcessOutput 0 NormalExit reported j
       = Inr (j\<lparr>completion := Finite (14092861 / 33554432), status := 2\<rparr>)"
  by (simp add: readProcessOutput_def model_setData_def contains_def at_key_def reported_def
      setCompletion_def setStatus_def toFloat_double042)

text \<open>
  C9. The job that the constructor makes is not started and no collection holds it. On
  it \<open>refresh\<close> does not set the status to -1: it calls \<open>setData\<close> through the null
  \<open>model()\<close> and faults.
\<close>

theorem refresh_outside_collection:
  "modelIndex (job world0) = None \<and> \<not> isStarted (job world0) (fs world0) \<and>
   refresh env0 world0 = Inl NullPointer"
  by (simp add: refresh_def model_setData_def world0_def isStarted_def dir_exists_def
      disk0_def job0_def Job_new_def createDefaultGraph_def)

theorem refresh_outside_collection_witness:
  "status (job world0) = - 1 \<and> refresh env0 world0 = Inl NullPointer"
  using refresh_outside_collection
  by (simp add: world0_def job0_def Job_new_def createDefaultGraph_def declared0_def)

text \<open>
  C5. On the job that the constructor makes, which no collection holds, a status
  worker that ends abnormally and one whose output is not JSON do not set the status
  to 4: \<open>readProcessOutput\<close> calls \<open>setData\<close> through the null \<open>model()\<close> and faults.
\<close>

theorem worker_failure_outside_collection:
  "modelIndex job0 = None \<and>
   exitStat crashed \<noteq> NormalExit \<and>
   readProcessOutput (exitCode crashed) (exitStat crashed) crashed job0 = Inl NullPointer \<and>
   exitStat garbled = NormalExit \<and> fromJson (standardOutput garbled) = None \<and>
   readProcessOutput (exitCode garbled) (exitStat garbled) garbled job0 = Inl NullPointer"
  by (simp add: readProcessOutput_def model_setData_def crashed_def garbled_def job0_def
      Job_new_def createDefaultGraph_def)

theorem worker_failure_outside_collection_witness:
  "readProcessOutput 1 CrashExit crashed job0 = Inl NullPointer \<and>
   readProcessOutput 0 NormalExit garbled job0 = Inl NullPointer"
  using worker_failure_outside_collection
  by (simp add: crashed_def garbled_def)

text \<open>
  C4, as the code has it. The worker ended normally and its output is a JSON document.
  If \<open>completion\<close> or \<open>status\<close> is missing, the job is left as it was. If both are
  there, a number \<open>c\<close> and a whole number \<open>s\<close> that fits an \<open>int\<close>, and a collection
  holds the job, the status becomes \<open>s\<close> and the completion becomes \<open>c\<close> narrowed to a
  \<open>float\<close>; so the output \<open>{"completion":0.42,"status":2}\<close> gives status 2 and the
  completion 14092861 / 33554432, the \<open>float\<close> nearest to 0.42.
\<close>

theorem worker_report:
  "(exitSt = NormalExit \<and> fromJson (standardOutput process) = Some doc \<and>
      (\<not> contains (object doc) ''completion'' \<or> \<not> contains (object doc) ''status'')
      \<longrightarrow> readProcessOutput code exitSt process j = Inr j) \<and>
   (modelIndex j \<noteq> None \<and> exitSt = NormalExit \<and>
      fromJson (standardOutput process) = Some doc \<and>
      map_of (object doc) ''completion'' = Some (JDouble c) \<and>
      map_of (object doc) ''status'' = Some (JDouble (of_int s)) \<and>
      - (2 ^ 31) \<le> s \<and> s < 2 ^ 31
      \<longrightarrow> readProcessOutput code exitSt process j
            = Inr (j\<lparr>completion := toFloat c, status := s\<rparr>)) \<and>
   (modelIndex j \<noteq> None
      \<longrightarrow> readProcessOutput 0 NormalExit reported j
            = Inr (j\<lparr>completion := Finite (14092861 / 33554432), status := 2\<rparr>))"
proof (intro conjI impI)
  assume "exitSt = NormalExit \<and> fromJson (standardOutput process) = Some doc \<and>
      (\<not> contains (object doc) ''completion'' \<or> \<not> contains (object doc) ''status'')"
  then show "readProcessOutput code exitSt process j = Inr j"
    by (auto simp add: readProcessOutput_def)
next
  assume a: "modelIndex j \<noteq> None \<and> exitSt = NormalExit \<and>
      fromJson (standardOutput process) = Some doc \<and>
      map_of (object doc) ''completion'' = Some (JDouble c) \<and>
      map_of (object doc) ''status'' = Some (JDouble (of_int s)) \<and>
      - (2 ^ 31) \<le> s \<and> s < 2 ^ 31"
  then have "toInt (at_key (object doc) ''status'') = s"
    by (simp add: at_key_def)
  with a show "readProcessOutput code exitSt process j
      = Inr (j\<lparr>completion := toFloat c, status := s\<rparr>)"
    by (simp add: readProcessOutput_def model_setData_def contains_def at_key_def
        setCompletion_def setStatus_def)
next
  assume "modelIndex j \<noteq> None"
  then show "readProcessOutput 0 NormalExit reported j
      = Inr (j\<lparr>completion := Finite (14092861 / 33554432), status := 2\<rparr>)"
    by (rule reported_held)
qed

theorem worker_report_witness:
  "exitStat warmingUp = NormalExit \<and>
   \<not> contains (object (DocObject [(''completion'', JDouble double042)])) ''status'' \<and>
   readProcessOutput 0 NormalExit warmingUp jobHeld = Inr jobHeld \<and>
   modelIndex jobHeld \<noteq> None \<and>
   readProcessOutput 0 NormalExit reported jobHeld
     = Inr (jobHeld\<lparr>completion := Finite (14092861 / 33554432), status := 2\<rparr>) \<and>
   toFloat double042 = Finite (14092861 / 33554432) \<and>
   completion jobHeld = Finite 0 \<and> status jobHeld = - 1"
  using
    worker_report [of NormalExit warmingUp "DocObject [(''completion'', JDouble double042)]"
      0 jobHeld double042 2]
    worker_report [of NormalExit reported
      "DocObject [(''completion'', JDouble double042), (''status'', JDouble 2)]"
      0 jobHeld double042 2]
  by (simp add: warmingUp_def reported_def contains_def jobHeld_def setModelIndex_def job0_def
      Job_new_def createDefaultGraph_def declared0_def toFloat_double042)

text \<open>
  The claim as the spec states it, that the completion is set to exactly the reported
  value, is false: the worker prints 0.42, which is read as the \<open>double\<close>
  \<open>double042\<close>, and the job, which a collection holds, gets the completion
  14092861 / 33554432, which is neither 0.42 nor that \<open>double\<close>.
\<close>

theorem worker_report_rounds:
  "modelIndex jobHeld \<noteq> None \<and>
   nearestDouble (42 / 100) = Finite double042 \<and>
   at_key (object (the (fromJson (standardOutput reported)))) ''completion''
     = JDouble double042 \<and>
   completion (projr (readProcessOutput 0 NormalExit reported jobHeld))
     = Finite (14092861 / 33554432) \<and>
   completion (projr (readProcessOutput 0 NormalExit reported jobHeld))
     \<noteq> Finite double042 \<and>
   completion (projr (readProcessOutput 0 NormalExit reported jobHeld))
     \<noteq> Finite (42 / 100)"
proof -
  have h: "modelIndex jobHeld \<noteq> None"
    by (simp add: jobHeld_def setModelIndex_def)
  have d: "at_key (object (the (fromJson (standardOutput reported)))) ''completion''
     = JDouble double042"
    by (simp add: reported_def at_key_def)
  show ?thesis
    using h d nearestDouble_042 reported_held [OF h]
    by (simp add: double042_def)
qed

section \<open>Loading\<close>

text \<open>
  C6, as the code has it. \<open>load\<close> returns false when the directory does not exist, when
  \<open>job.json\<close> cannot be read and when its bytes are not JSON. In the first case the
  world is left as it was. In the other two the job's location has already been set to
  the given one: it is the only change, so the name, the user, the resources and the
  attribute values stay as they were.
\<close>

theorem load_failure:
  "(\<not> dir_exists (fs w) (toLocalFile u) \<longrightarrow> load u w = (False, w)) \<and>
   (dir_exists (fs w) (toLocalFile u) \<and>
      (open_read (fs w) (filePath (toLocalFile u) ''job.json'') = None \<or>
       (\<exists>bytes. open_read (fs w) (filePath (toLocalFile u) ''job.json'') = Some bytes \<and>
                fromJson bytes = None))
      \<longrightarrow> load u w = (False, w\<lparr>job := (job w)\<lparr>url := u\<rparr>\<rparr>))"
  by (auto simp add: load_def Let_def)

theorem load_failure_witness:
  "\<not> dir_exists (fs world0) (toLocalFile (QUrl ''/q'')) \<and>
   load (QUrl ''/q'') world0 = (False, world0) \<and>
   dir_exists (fs worldNoDescriptor) (toLocalFile (QUrl ''/q'')) \<and>
   open_read (fs worldNoDescriptor) (filePath (toLocalFile (QUrl ''/q'')) ''job.json'') = None \<and>
   load (QUrl ''/q'') worldNoDescriptor
     = (False, worldNoDescriptor\<lparr>job := job0\<lparr>url := QUrl ''/q''\<rparr>\<rparr>) \<and>
   open_read (fs worldBadDescriptor) (filePath (toLocalFile (QUrl ''/q'')) ''job.json'')
     = Some (Malformed ''{'') \<and>
   load (QUrl ''/q'') worldBadDescriptor
     = (False, worldBadDescriptor\<lparr>job := job0\<lparr>url := QUrl ''/q''\<rparr>\<rparr>)"
  using load_failure [of world0 "QUrl ''/q''"]
    load_failure [of worldNoDescriptor "QUrl ''/q''"]
    load_failure [of worldBadDescriptor "QUrl ''/q''"]
  by (simp add: world0_def disk0_def worldNoDescriptor_def worldBadDescriptor_def
      diskNoDescriptor_def diskBadDescriptor_def dir_exists_def open_read_def filePath_def)

text \<open>
  The claim as the spec states it, that a failed \<open>load\<close> leaves the storage location
  unchanged, is false: loading from a directory that has no \<open>job.json\<close> returns false
  and the job's location is the new directory.
\<close>

theorem load_failure_moves_url:
  "dir_exists (fs worldNoDescriptor) (toLocalFile (QUrl ''/q'')) \<and>
   fst (load (QUrl ''/q'') worldNoDescriptor) = False \<and>
   url (job (snd (load (QUrl ''/q'') worldNoDescriptor))) = QUrl ''/q'' \<and>
   url (job worldNoDescriptor) = QUrl ''/p/reconstructions/t0''"
  by (simp add: load_def Let_def worldNoDescriptor_def diskNoDescriptor_def dir_exists_def
      open_read_def filePath_def job0_def Job_new_def createDefaultGraph_def fromLocalFile_def)

section \<open>The thumbnail\<close>

lemma countChanged_job: "job (countChanged w) = selectThumbnail (job w)"
  by (simp add: countChanged_def Let_def save_job)

lemma addResource_job:
  "job (addResource r w) = selectThumbnail ((job w)\<lparr>images := images (job w) @ [r]\<rparr>)"
  by (simp add: addResource_def countChanged_job)

text \<open>
  C7, as the code has it. When the size of the resource collection changes, a
  collection holds the job and there is at least one resource, the thumbnail is the
  location of the first resource; so adding a resource to an empty collection makes it
  the thumbnail, and adding a second one leaves the thumbnail at the first. While no
  collection holds the job, \<open>selectThumbnail\<close> returns at once and the thumbnail stays
  as it was.
\<close>

theorem thumbnail_first_resource:
  "(modelIndex (job w) \<noteq> None \<and> images (job w) \<noteq> []
      \<longrightarrow> thumbnail (job (countChanged w)) = location (hd (images (job w)))) \<and>
   (modelIndex (job w) \<noteq> None \<and> images (job w) = []
      \<longrightarrow> thumbnail (job (addResource r1 w)) = location r1 \<and>
          thumbnail (job (addResource r2 (addResource r1 w))) = location r1) \<and>
   (modelIndex (job w) = None
      \<longrightarrow> thumbnail (job (countChanged w)) = thumbnail (job w))"
  by (auto simp add: countChanged_job addResource_job selectThumbnail_def setThumbnail_def data_UrlRole_def
      hd_conv_nth)

theorem thumbnail_first_resource_witness:
  "modelIndex (job worldHeld) \<noteq> None \<and> images (job worldHeld) = [] \<and>
   thumbnail (job (addResource (Resource (QUrl ''/img/1.jpg'')) worldHeld))
     = QUrl ''/img/1.jpg'' \<and>
   thumbnail (job (addResource (Resource (QUrl ''/img/2.jpg''))
                    (addResource (Resource (QUrl ''/img/1.jpg'')) worldHeld)))
     = QUrl ''/img/1.jpg'' \<and>
   images (job (addResource (Resource (QUrl ''/img/1.jpg'')) worldHeld)) \<noteq> [] \<and>
   thumbnail (job (countChanged (addResource (Resource (QUrl ''/img/1.jpg'')) worldHeld)))
     = QUrl ''/img/1.jpg'' \<and>
   modelIndex (job world0) = None \<and>
   thumbnail (job (countChanged world0)) = thumbnail (job world0)"
  using
    thumbnail_first_resource [of worldHeld "Resource (QUrl ''/img/1.jpg'')"
      "Resource (QUrl ''/img/2.jpg'')"]
    thumbnail_first_resource [of "addResource (Resource (QUrl ''/img/1.jpg'')) worldHeld"]
    thumbnail_first_resource [of world0]
  by (simp add: addResource_job selectThumbnail_def setThumbnail_def worldHeld_def world0_def jobHeld_def
      setModelIndex_def job0_images job0_def Job_new_def createDefaultGraph_def)

text \<open>
  The claim as the spec states it, for whenever the size changes, is false for a job
  that no collection holds yet: a first resource is added to the job the constructor
  made, and the thumbnail stays empty.
\<close>

theorem thumbnail_not_set_outside_collection:
  "images (job world0) = [] \<and>
   images (job (addResource (Resource (QUrl ''/img/1.jpg'')) world0))
     = [Resource (QUrl ''/img/1.jpg'')] \<and>
   thumbnail (job (addResource (Resource (QUrl ''/img/1.jpg'')) world0)) = QUrl []"
  by (simp add: addResource_job selectThumbnail_def setThumbnail_def world0_def job0_def Job_new_def
      createDefaultGraph_def)

section \<open>The initial pair\<close>

lemma getAttribute_rows_found:
  "att \<in> set atts \<Longrightarrow> distinct (map key atts) \<Longrightarrow>
     \<exists>i. getAttribute_rows (key att) atts n = Some (i, att)"
proof (induction atts arbitrary: n)
  case Nil
  then show ?case by simp
next
  case (Cons a atts)
  show ?case
  proof (cases "a = att")
    case True
    then show ?thesis by simp
  next
    case False
    with Cons.prems have "att \<in> set atts" and "key a \<noteq> key att"
      and "distinct (map key atts)"
      by auto
    with Cons.IH show ?thesis by simp
  qed
qed

lemma getAttribute_rows_absent:
  "\<forall>a \<in> set atts. key a \<noteq> k \<Longrightarrow> getAttribute_rows k atts n = None"
  by (induction atts arbitrary: n) simp_all

lemma getAttribute_steps_found:
  assumes "s \<in> set ss" and "distinct (map sname ss)"
    and "att \<in> set (attributes s)" and "distinct (map key (attributes s))"
  shows "\<exists>i. getAttribute_steps (sname s) (key att) ss = Some (i, s, att)"
  using assms(1,2)
proof (induction ss)
  case Nil
  then show ?case by simp
next
  case (Cons x ss)
  show ?case
  proof (cases "x = s")
    case True
    obtain i where "getAttribute_rows (key att) (attributes s) 0 = Some (i, att)"
      using getAttribute_rows_found [OF assms(3,4)] by blast
    with True show ?thesis by simp
  next
    case False
    with Cons.prems have "s \<in> set ss" and "sname x \<noteq> sname s"
      and "distinct (map sname ss)"
      by auto
    with Cons.IH show ?thesis by simp
  qed
qed

lemma getAttribute_steps_absent:
  "\<forall>s \<in> set ss. sname s = sn \<longrightarrow> (\<forall>a \<in> set (attributes s). key a \<noteq> k) \<Longrightarrow>
     getAttribute_steps sn k ss = None"
  by (induction ss) (simp_all add: getAttribute_rows_absent)

lemma holds_initial_pair_found:
  "holds_initial_pair j att \<Longrightarrow>
     \<exists>i s. getAttribute j ''sfm'' ''initial_pair'' = Some (i, s, att)"
  unfolding holds_initial_pair_def getAttribute_def
  using getAttribute_steps_found by metis

lemma steps_job0:
  "steps job0 =
    [\<lparr>sname = ''feature_detection'', attributes =
        [\<lparr>atype = 2, key = ''describerPreset'', aname = ''quality'',
          avalue = VString ''Normal'', options = [''Normal'', ''High'', ''Ultra''],
          amin = 0, amax = 0, astep = 0\<rparr>]\<rparr>,
     \<lparr>sname = ''meshing'', attributes =
        [\<lparr>atype = 1, key = ''scale'', aname = ''meshing scale'', avalue = VNumber 2,
          options = [], amin = 1, amax = 10, astep = 1\<rparr>]\<rparr>,
     \<lparr>sname = ''sfm'', attributes = [pairAttribute (VList [VString [], VString []])]\<rparr>]"
  by (simp add: job0_def Job_new_def createDefaultGraph_def declared0_def pairAttribute_def)

lemma steps_withPair:
  "steps (withPair v job0) =
    [\<lparr>sname = ''feature_detection'', attributes =
        [\<lparr>atype = 2, key = ''describerPreset'', aname = ''quality'',
          avalue = VString ''Normal'', options = [''Normal'', ''High'', ''Ultra''],
          amin = 0, amax = 0, astep = 0\<rparr>]\<rparr>,
     \<lparr>sname = ''meshing'', attributes =
        [\<lparr>atype = 1, key = ''scale'', aname = ''meshing scale'', avalue = VNumber 2,
          options = [], amin = 1, amax = 10, astep = 1\<rparr>]\<rparr>,
     \<lparr>sname = ''sfm'', attributes = [pairAttribute v]\<rparr>]"
  by (simp add: withPair_def steps_job0) (simp add: pairAttribute_def)

lemma holds_withPair: "holds_initial_pair (withPair v job0) (pairAttribute v)"
  by (simp add: holds_initial_pair_def steps_withPair) (simp add: pairAttribute_def)

text \<open>
  C8. When the \<open>initial_pair\<close> attribute of the \<open>sfm\<close> step holds the pair \<open>[a, b]\<close>,
  \<open>isPairA\<close> is true of exactly the location of \<open>a\<close> and \<open>isPairB\<close> of exactly the
  location of \<open>b\<close>. When the job has no \<open>sfm\<close> step, or that step has no
  \<open>initial_pair\<close> attribute, the three queries return false, without a fault.
\<close>

theorem initial_pair_queries:
  "(holds_initial_pair j att \<and> avalue att = VList [VString a, VString b]
      \<longrightarrow> isPairA qt j u = Inr (u = fromLocalFile a) \<and>
          isPairB qt j u = Inr (u = fromLocalFile b)) \<and>
   ((\<forall>s \<in> set (steps j). sname s = ''sfm'' \<longrightarrow>
        (\<forall>x \<in> set (attributes s). key x \<noteq> ''initial_pair''))
      \<longrightarrow> isPairA qt j u = Inr False \<and> isPairB qt j u = Inr False \<and>
          isPairValid qt j = Inr False)"
proof (intro conjI impI)
  assume h: "holds_initial_pair j att \<and> avalue att = VList [VString a, VString b]"
  then obtain i s where g: "getAttribute j ''sfm'' ''initial_pair'' = Some (i, s, att)"
    using holds_initial_pair_found by blast
  have e: "(c = toLocalFile u) = (u = QUrl c)" for c
    by (cases u) auto
  from h g show "isPairA qt j u = Inr (u = fromLocalFile a)"
    by (simp add: isPairA_def at_index_def variantEquals_def fromLocalFile_def e)
  from h g show "isPairB qt j u = Inr (u = fromLocalFile b)"
    by (simp add: isPairB_def at_index_def variantEquals_def fromLocalFile_def e)
next
  assume "\<forall>s \<in> set (steps j). sname s = ''sfm'' \<longrightarrow>
        (\<forall>x \<in> set (attributes s). key x \<noteq> ''initial_pair'')"
  then have n: "getAttribute j ''sfm'' ''initial_pair'' = None"
    unfolding getAttribute_def by (rule getAttribute_steps_absent)
  show "isPairA qt j u = Inr False" by (simp add: isPairA_def n)
  show "isPairB qt j u = Inr False" by (simp add: isPairB_def n)
  show "isPairValid qt j = Inr False" by (simp add: isPairValid_def n)
qed

theorem initial_pair_queries_witness:
  "holds_initial_pair jobPair
     (pairAttribute (VList [VString ''/img/1.jpg'', VString ''/img/2.jpg''])) \<and>
   isPairA qt0 jobPair (QUrl ''/img/1.jpg'') = Inr True \<and>
   isPairB qt0 jobPair (QUrl ''/img/2.jpg'') = Inr True \<and>
   isPairA qt0 jobPair (QUrl ''/img/2.jpg'') = Inr False \<and>
   isPairB qt0 jobPair (QUrl ''/img/1.jpg'') = Inr False \<and>
   list_all (\<lambda>s. sname s \<noteq> ''sfm'') (steps jobNoSfm) \<and>
   isPairA qt0 jobNoSfm (QUrl ''/img/1.jpg'') = Inr False \<and>
   isPairB qt0 jobNoSfm (QUrl ''/img/2.jpg'') = Inr False \<and>
   isPairValid qt0 jobNoSfm = Inr False"
  using
    initial_pair_queries [of jobPair
      "pairAttribute (VList [VString ''/img/1.jpg'', VString ''/img/2.jpg''])"
      "''/img/1.jpg''" "''/img/2.jpg''" qt0 "QUrl ''/img/1.jpg''"]
    initial_pair_queries [of jobPair
      "pairAttribute (VList [VString ''/img/1.jpg'', VString ''/img/2.jpg''])"
      "''/img/1.jpg''" "''/img/2.jpg''" qt0 "QUrl ''/img/2.jpg''"]
    initial_pair_queries [of jobNoSfm _ _ _ qt0 "QUrl ''/img/1.jpg''"]
    initial_pair_queries [of jobNoSfm _ _ _ qt0 "QUrl ''/img/2.jpg''"]
    holds_withPair [of "VList [VString ''/img/1.jpg'', VString ''/img/2.jpg'']"]
  by (simp add: jobPair_def jobNoSfm_def steps_job0 pairAttribute_def fromLocalFile_def)

text \<open>
  C10. When the \<open>initial_pair\<close> attribute of the \<open>sfm\<close> step holds a value whose list
  is too short, the queries return false: \<open>isPairA\<close> for an empty list, \<open>isPairB\<close> and
  \<open>isPairValid\<close> for a list of fewer than two elements. None of the three queries
  ever reads the list out of its range, whatever the job.
\<close>

theorem initial_pair_short:
  "(holds_initial_pair j att \<and> length (toList (avalue att)) < 1
      \<longrightarrow> isPairA qt j u = Inr False) \<and>
   (holds_initial_pair j att \<and> length (toList (avalue att)) < 2
      \<longrightarrow> isPairB qt j u = Inr False \<and> isPairValid qt j = Inr False) \<and>
   isPairA qt j u \<noteq> Inl e \<and> isPairB qt j u \<noteq> Inl e \<and> isPairValid qt j \<noteq> Inl e"
proof (intro conjI impI)
  assume h: "holds_initial_pair j att \<and> length (toList (avalue att)) < 1"
  then obtain i s where g: "getAttribute j ''sfm'' ''initial_pair'' = Some (i, s, att)"
    using holds_initial_pair_found by blast
  with h show "isPairA qt j u = Inr False"
    by (simp add: isPairA_def)
next
  assume h: "holds_initial_pair j att \<and> length (toList (avalue att)) < 2"
  then obtain i s where g: "getAttribute j ''sfm'' ''initial_pair'' = Some (i, s, att)"
    using holds_initial_pair_found by blast
  with h show "isPairB qt j u = Inr False"
    by (simp add: isPairB_def)
  from h g show "isPairValid qt j = Inr False"
    by (simp add: isPairValid_def)
next
  show "isPairA qt j u \<noteq> Inl e"
    by (simp add: isPairA_def at_index_def Let_def split: option.splits)
  show "isPairB qt j u \<noteq> Inl e"
    by (simp add: isPairB_def at_index_def Let_def split: option.splits)
  show "isPairValid qt j \<noteq> Inl e"
    by (simp add: isPairValid_def at_index_def Let_def split: option.splits)
qed

theorem initial_pair_short_witness:
  "holds_initial_pair (withPair (VString ''/img/1.jpg'') job0)
     (pairAttribute (VString ''/img/1.jpg'')) \<and>
   length (toList (avalue (pairAttribute (VString ''/img/1.jpg'')))) < 1 \<and>
   isPairA qt0 (withPair (VString ''/img/1.jpg'') job0) (QUrl ''/img/1.jpg'') = Inr False \<and>
   holds_initial_pair (withPair (VList [VString ''/img/1.jpg'']) job0)
     (pairAttribute (VList [VString ''/img/1.jpg''])) \<and>
   length (toList (avalue (pairAttribute (VList [VString ''/img/1.jpg''])))) < 2 \<and>
   isPairB qt0 (withPair (VList [VString ''/img/1.jpg'']) job0) (QUrl ''/img/1.jpg'')
     = Inr False \<and>
   isPairValid qt0 (withPair (VList [VString ''/img/1.jpg'']) job0) = Inr False"
  using
    initial_pair_short [of "withPair (VString ''/img/1.jpg'') job0"
      "pairAttribute (VString ''/img/1.jpg'')" qt0 "QUrl ''/img/1.jpg''"]
    initial_pair_short [of "withPair (VList [VString ''/img/1.jpg'']) job0"
      "pairAttribute (VList [VString ''/img/1.jpg''])" qt0 "QUrl ''/img/1.jpg''"]
    holds_withPair [of "VString ''/img/1.jpg''"]
    holds_withPair [of "VList [VString ''/img/1.jpg'']"]
  by (simp add: pairAttribute_def)

section \<open>The descriptor read back\<close>

lemma toVariant_fromVariant: "toVariant (fromVariant v) = v"
  by (induction v) (auto intro!: map_idI simp: map_prod_def split: prod.splits)

lemma map_of_insert_key: "map_of (insert_key k v obj) = (map_of obj)(k \<mapsto> v)"
  by (simp add: insert_key_def update_conv')

text \<open>
  Filling an object key by key: a key that no element writes keeps its entry, and with
  distinct keys every element's entry is its own.
\<close>

lemma foldl_insert_other:
  "k \<notin> kf ` set xs \<Longrightarrow>
     map_of (foldl (\<lambda>obj x. insert_key (kf x) (vf x) obj) acc xs) k = map_of acc k"
  by (induction xs arbitrary: acc) (auto simp: map_of_insert_key)

lemma foldl_insert_found:
  "distinct (map kf xs) \<Longrightarrow> x \<in> set xs \<Longrightarrow>
     map_of (foldl (\<lambda>obj x. insert_key (kf x) (vf x) obj) acc xs) (kf x) = Some (vf x)"
proof (induction xs arbitrary: acc)
  case Nil
  then show ?case by simp
next
  case (Cons y ys)
  show ?case
  proof (cases "x = y")
    case True
    with Cons.prems have "kf x \<notin> kf ` set ys" by auto
    with True show ?thesis
      by (simp add: foldl_insert_other map_of_insert_key)
  next
    case False
    with Cons show ?thesis by simp
  qed
qed

lemma resources_array:
  "foldl (\<lambda>array r. Resource_serializeToJSON r array) acc rs
     = acc @ map (\<lambda>r. JString (toLocalFile (location r))) rs"
  by (induction rs arbitrary: acc) (simp_all add: Resource_serializeToJSON_def)

lemma selectThumbnail_fields:
  "images (selectThumbnail j) = images j" "name (selectThumbnail j) = name j"
  "user (selectThumbnail j) = user j" "steps (selectThumbnail j) = steps j"
  by (simp_all add: selectThumbnail_def setThumbnail_def)

lemma addResources_job:
  "images (job (foldl (\<lambda>v e. addResource (f e) v) w es)) = images (job w) @ map f es \<and>
   name (job (foldl (\<lambda>v e. addResource (f e) v) w es)) = name (job w) \<and>
   user (job (foldl (\<lambda>v e. addResource (f e) v) w es)) = user (job w) \<and>
   steps (job (foldl (\<lambda>v e. addResource (f e) v) w es)) = steps (job w)"
  by (induction es arbitrary: w) (simp_all add: addResource_job selectThumbnail_fields)

lemma serialized_keys:
  "map_of (serializeToJSON j []) ''user'' = Some (JString (user j))"
  "map_of (serializeToJSON j []) ''name'' = Some (JString (name j))"
  "map_of (serializeToJSON j []) ''resources''
     = Some (JArray (map (\<lambda>r. JString (toLocalFile (location r))) (images j)))"
  "map_of (serializeToJSON j []) ''steps''
     = Some (JObject (foldl (\<lambda>so step. Step_serializeToJSON step so) [] (steps j)))"
  by (simp_all add: serializeToJSON_def Let_def map_of_insert_key resources_array)

lemma attributes_round_trip:
  assumes "map key ta = map key sa" and "distinct (map key sa)"
  shows "map (\<lambda>a. (key a, avalue a))
           (map (Attribute_deserializeFromJSON
                   (foldl (\<lambda>obj att. Attribute_serializeToJSON att obj) [] sa)) ta)
         = map (\<lambda>a. (key a, avalue a)) sa"
proof (rule nth_equalityI)
  from assms(1) have len: "length ta = length sa"
    using map_eq_imp_length_eq by blast
  then show "length (map (\<lambda>a. (key a, avalue a))
           (map (Attribute_deserializeFromJSON
                   (foldl (\<lambda>obj att. Attribute_serializeToJSON att obj) [] sa)) ta))
         = length (map (\<lambda>a. (key a, avalue a)) sa)"
    by simp
  fix i
  assume "i < length (map (\<lambda>a. (key a, avalue a))
           (map (Attribute_deserializeFromJSON
                   (foldl (\<lambda>obj att. Attribute_serializeToJSON att obj) [] sa)) ta))"
  then have i: "i < length sa" "i < length ta"
    using len by simp_all
  have k: "key (ta ! i) = key (sa ! i)"
    using assms(1) i by (metis nth_map)
  have "map_of (foldl (\<lambda>obj att. insert_key (key att) (fromVariant (avalue att)) obj) [] sa)
          (key (sa ! i)) = Some (fromVariant (avalue (sa ! i)))"
    using foldl_insert_found [of key sa "sa ! i" "\<lambda>a. fromVariant (avalue a)" "[]"] assms(2) i
    by simp
  then have "map_of (foldl (\<lambda>obj att. Attribute_serializeToJSON att obj) [] sa) (key (ta ! i))
      = Some (fromVariant (avalue (sa ! i)))"
    by (simp add: Attribute_serializeToJSON_def k)
  then show "map (\<lambda>a. (key a, avalue a))
           (map (Attribute_deserializeFromJSON
                   (foldl (\<lambda>obj att. Attribute_serializeToJSON att obj) [] sa)) ta) ! i
         = map (\<lambda>a. (key a, avalue a)) sa ! i"
    using i k
    by (simp add: Attribute_deserializeFromJSON_def contains_def at_key_def
        toVariant_fromVariant)
qed

lemma steps_round_trip:
  assumes "shape ts = shape ss" and "unique_keys ss"
  shows "settings (map (Step_deserializeFromJSON
                          (foldl (\<lambda>so step. Step_serializeToJSON step so) [] ss)) ts)
         = settings ss"
  unfolding settings_def
proof (rule nth_equalityI)
  from assms(1) have len: "length ts = length ss"
    unfolding shape_def using map_eq_imp_length_eq by blast
  then show "length (map (\<lambda>s. (sname s, map (\<lambda>a. (key a, avalue a)) (attributes s)))
       (map (Step_deserializeFromJSON
               (foldl (\<lambda>so step. Step_serializeToJSON step so) [] ss)) ts))
     = length (map (\<lambda>s. (sname s, map (\<lambda>a. (key a, avalue a)) (attributes s))) ss)"
    by simp
  fix i
  assume "i < length (map (\<lambda>s. (sname s, map (\<lambda>a. (key a, avalue a)) (attributes s)))
       (map (Step_deserializeFromJSON
               (foldl (\<lambda>so step. Step_serializeToJSON step so) [] ss)) ts))"
  then have i: "i < length ss" "i < length ts"
    using len by simp_all
  have "shape ts ! i = shape ss ! i"
    using assms(1) by simp
  then have n: "sname (ts ! i) = sname (ss ! i)"
    and k: "map key (attributes (ts ! i)) = map key (attributes (ss ! i))"
    using i by (simp_all add: shape_def)
  have d: "distinct (map sname ss)" and da: "distinct (map key (attributes (ss ! i)))"
    using assms(2) i by (simp_all add: unique_keys_def list_all_length)
  have "map_of (foldl (\<lambda>so step. insert_key (sname step)
            (JObject (foldl (\<lambda>obj att. Attribute_serializeToJSON att obj) []
               (attributes step))) so)
          [] ss) (sname (ss ! i))
        = Some (JObject (foldl (\<lambda>obj att. Attribute_serializeToJSON att obj) []
            (attributes (ss ! i))))"
    using foldl_insert_found [of sname ss "ss ! i"
        "\<lambda>step. JObject (foldl (\<lambda>obj att. Attribute_serializeToJSON att obj) []
           (attributes step))"
        "[]"] d i
    by simp
  then have m: "map_of (foldl (\<lambda>so step. Step_serializeToJSON step so) [] ss) (sname (ts ! i))
        = Some (JObject (foldl (\<lambda>obj att. Attribute_serializeToJSON att obj) []
            (attributes (ss ! i))))"
    by (simp add: Step_serializeToJSON_def n)
  show "map (\<lambda>s. (sname s, map (\<lambda>a. (key a, avalue a)) (attributes s)))
       (map (Step_deserializeFromJSON
               (foldl (\<lambda>so step. Step_serializeToJSON step so) [] ss)) ts) ! i
     = map (\<lambda>s. (sname s, map (\<lambda>a. (key a, avalue a)) (attributes s))) ss ! i"
    using i n m attributes_round_trip [OF k da]
    by (simp add: Step_deserializeFromJSON_def contains_def at_key_def)
qed

text \<open>
  C1. Take any job whose step names and attribute keys are unique, write its
  descriptor, and read the descriptor into a job that has the same steps and keys and
  no resources yet, as the job that the constructor makes for \<open>load\<close> has. The job
  read has the name, the user, the resources in their order and every attribute value
  of the job written.
\<close>

theorem descriptor_round_trip:
  assumes "unique_keys (steps j)" and "shape (steps (job w)) = shape (steps j)"
    and "images (job w) = []"
  shows "name (job (deserializeFromJSON (serializeToJSON j []) w)) = name j \<and>
         user (job (deserializeFromJSON (serializeToJSON j []) w)) = user j \<and>
         images (job (deserializeFromJSON (serializeToJSON j []) w)) = images j \<and>
         settings (steps (job (deserializeFromJSON (serializeToJSON j []) w)))
           = settings (steps j)"
proof -
  have r: "map (\<lambda>e. Resource (fromLocalFile (toString e)))
             (map (\<lambda>r. JString (toLocalFile (location r))) (images j)) = images j"
    by (simp add: fromLocalFile_def o_def)
  show ?thesis
    using assms r
    by (simp add: deserializeFromJSON_def Let_def contains_def at_key_def serialized_keys
        autoSaveOn_def autoSaveOff_def addResources_job steps_round_trip)
qed

lemma steps_jobEdited:
  "steps jobEdited
     = steps (withPair (VList [VString ''/img/1.jpg'', VString ''/img/2.jpg'']) job0)"
  by (simp add: jobEdited_def jobPair_def)

theorem descriptor_round_trip_witness:
  "unique_keys (steps jobEdited) \<and>
   shape (steps (job world0)) = shape (steps jobEdited) \<and>
   images (job world0) = [] \<and>
   name (job world0) = ''t0'' \<and> user (job world0) = ''ada'' \<and>
   name (job (deserializeFromJSON (serializeToJSON jobEdited []) world0)) = ''vase'' \<and>
   user (job (deserializeFromJSON (serializeToJSON jobEdited []) world0)) = ''bob'' \<and>
   images (job (deserializeFromJSON (serializeToJSON jobEdited []) world0))
     = [Resource (QUrl ''/img/1.jpg''), Resource (QUrl ''/img/2.jpg'')] \<and>
   settings (steps (job (deserializeFromJSON (serializeToJSON jobEdited []) world0)))
     = [(''feature_detection'', [(''describerPreset'', VString ''Normal'')]),
        (''meshing'', [(''scale'', VNumber 2)]),
        (''sfm'', [(''initial_pair'',
                   VList [VString ''/img/1.jpg'', VString ''/img/2.jpg''])])]"
proof -
  have u: "unique_keys (steps jobEdited)"
    by (simp add: unique_keys_def steps_jobEdited steps_withPair)
  have s: "shape (steps (job world0)) = shape (steps jobEdited)"
    by (simp add: shape_def world0_def steps_jobEdited steps_withPair steps_job0
        pairAttribute_def)
  have i: "images (job world0) = []"
    by (simp add: world0_def job0_images)
  have v: "settings (steps jobEdited)
     = [(''feature_detection'', [(''describerPreset'', VString ''Normal'')]),
        (''meshing'', [(''scale'', VNumber 2)]),
        (''sfm'', [(''initial_pair'',
                   VList [VString ''/img/1.jpg'', VString ''/img/2.jpg''])])]"
    by (simp add: settings_def steps_jobEdited steps_withPair) (simp add: pairAttribute_def)
  have n: "name (job world0) = ''t0''" "user (job world0) = ''ada''"
    by (simp_all add: world0_def job0_def Job_new_def createDefaultGraph_def)
  show ?thesis
    using descriptor_round_trip [OF u s i] u s i v n
    by (simp add: jobEdited_def)
qed

end
